theory Spec2Isabelle
  imports Complex_Main
begin

section \<open>DeepChat: a shallow embedding of \<open>app/main.py\<close> and \<open>app/utils.py\<close>\<close>

text \<open>
  The script is a Streamlit page: every user interaction runs \<open>main()\<close> once from the
  top, and \<open>st.session_state\<close> is the only data that survives from one run to the next.
  The embedding passes that state explicitly and takes everything the script reads from
  outside as a parameter: the two Ollama calls (\<open>ollama.list\<close>, \<open>ollama.chat\<close>) and the
  values the widgets return (\<open>st.slider\<close>, \<open>st.button\<close>, \<open>st.chat_input\<close>).
  Calls that only draw on the page (\<open>st.markdown\<close>, \<open>st.chat_message\<close>, \<open>st.spinner\<close>,
  \<open>st.empty\<close>, \<open>st.error\<close>, \<open>st.title\<close>, \<open>st.caption\<close>, \<open>st.header\<close>) read and write no
  session state and are left out; \<open>display_chat\<close> consists of such calls only.
\<close>

subsection \<open>Python values and exceptions\<close>

text \<open>
  Exceptions are values: a class and the text \<open>str(e)\<close> shows. Only subclasses of
  \<open>Exception\<close> are modelled; \<open>st.stop()\<close> and \<open>st.rerun()\<close> end the run through
  Streamlit's control-flow exceptions, which no handler of the script catches, and are
  modelled as the way a run ends.
\<close>

datatype exn_class =
  ConnectionError | ValueError | TypeError | KeyError | AttributeError | IndexError
  | NameError | OtherException

datatype exn = Exc exn_class string

fun exn_cls :: "exn \<Rightarrow> exn_class" where
  "exn_cls (Exc c m) = c"

fun str_exn :: "exn \<Rightarrow> string" where
  "str_exn (Exc c m) = m"

text \<open>
  The responses of the Ollama client are untyped Python objects decoded from JSON.
  A dict is an association list read with \<open>map_of\<close> (the first binding of a key counts).
\<close>

datatype pyval =
  PNone
  | PBool bool
  | PInt int
  | PFloat real
  | PStr string
  | PList "pyval list"
  | PDict "(string \<times> pyval) list"

definition bind_exn :: "exn + 'a \<Rightarrow> ('a \<Rightarrow> exn + 'b) \<Rightarrow> exn + 'b" where
  "bind_exn r f = (case r of Inl e \<Rightarrow> Inl e | Inr v \<Rightarrow> f v)"

text \<open>\<open>needle in haystack\<close> on two \<open>str\<close>: a contiguous occurrence.\<close>

primrec str_contains :: "string \<Rightarrow> string \<Rightarrow> bool" where
  "str_contains [] needle = (needle = [])"
| "str_contains (c # cs) needle =
     (take (length needle) (c # cs) = needle \<or> str_contains cs needle)"

text \<open>\<open>key in obj\<close> for a \<open>str\<close> key: membership of a key in a dict, of an element in a
  list, of a substring in a \<open>str\<close>; a \<open>TypeError\<close> on anything else.\<close>

fun py_contains :: "pyval \<Rightarrow> string \<Rightarrow> exn + bool" where
  "py_contains (PDict d) k = Inr (map_of d k \<noteq> None)"
| "py_contains (PList xs) k = Inr (PStr k \<in> set xs)"
| "py_contains (PStr s) k = Inr (str_contains s k)"
| "py_contains v k = Inl (Exc TypeError ''argument is not iterable'')"

text \<open>\<open>obj[key]\<close> for a \<open>str\<close> key: a \<open>KeyError\<close> on a dict without the key, a
  \<open>TypeError\<close> on every other object.\<close>

fun py_getitem :: "pyval \<Rightarrow> string \<Rightarrow> exn + pyval" where
  "py_getitem (PDict d) k =
     (case map_of d k of None \<Rightarrow> Inl (Exc KeyError k) | Some v \<Rightarrow> Inr v)"
| "py_getitem (PList xs) k = Inl (Exc TypeError ''list indices must be integers or slices, not str'')"
| "py_getitem (PStr s) k = Inl (Exc TypeError ''string indices must be integers'')"
| "py_getitem v k = Inl (Exc TypeError ''object is not subscriptable'')"

text \<open>\<open>obj.get(key)\<close>: \<open>None\<close> for a missing key; only a dict has the method.\<close>

fun py_get :: "pyval \<Rightarrow> string \<Rightarrow> exn + pyval" where
  "py_get (PDict d) k = Inr (case map_of d k of None \<Rightarrow> PNone | Some v \<Rightarrow> v)"
| "py_get v k = Inl (Exc AttributeError ''object has no attribute get'')"

text \<open>\<open>for m in obj\<close>: the elements of a list, the keys of a dict, the one-character
  strings of a \<open>str\<close>; a \<open>TypeError\<close> on anything else.\<close>

fun py_iter :: "pyval \<Rightarrow> exn + pyval list" where
  "py_iter (PList xs) = Inr xs"
| "py_iter (PDict d) = Inr (map (\<lambda>kv. PStr (fst kv)) d)"
| "py_iter (PStr s) = Inr (map (\<lambda>c. PStr [c]) s)"
| "py_iter v = Inl (Exc TypeError ''object is not iterable'')"

subsection \<open>Session state\<close>

text \<open>A message is the dict \<open>{"role": ..., "content": ...}\<close>. The content of a user
  message is the prompt, a \<open>str\<close>; the content of an assistant message is whatever object
  the response holds under \<open>message.content\<close>.\<close>

record message =
  role :: string
  content :: pyval

text \<open>\<open>st.session_state.params\<close>: a dict with the four keys below.\<close>

record params =
  temperature :: real
  top_p :: real
  num_predict :: int
  repeat_penalty :: real

text \<open>\<open>st.session_state\<close> as a run finds it: either key may be absent.\<close>

record stored_state =
  stored_messages :: "message list option"
  stored_params :: "params option"

text \<open>The session once \<open>initialize_session\<close> has run: both keys are present.\<close>

record session =
  messages :: "message list"
  params :: params

text \<open>The keyword arguments of the one call of \<open>ollama.chat\<close>.\<close>

record chat_request =
  model :: string
  chat_messages :: "message list"
  stream :: bool
  options :: params

text \<open>What a run reads from outside.\<close>

record env =
  ollama_list :: "exn + pyval"
  ollama_chat :: "chat_request \<Rightarrow> exn + pyval"
  slider_float :: "string \<Rightarrow> real \<Rightarrow> real \<Rightarrow> real \<Rightarrow> real"
  slider_int :: "string \<Rightarrow> int \<Rightarrow> int \<Rightarrow> int \<Rightarrow> int \<Rightarrow> int"
  button :: "string \<Rightarrow> bool"
  chat_input :: "string \<Rightarrow> string option"

text \<open>The rocket and broom emoji of the source's literals, as their UTF-8 bytes.\<close>

definition rocket :: string where
  "rocket = [CHR 0xF0, CHR 0x9F, CHR 0x9A, CHR 0x80]"

definition broom :: string where
  "broom = [CHR 0xF0, CHR 0x9F, CHR 0xA7, CHR 0xB9]"

subsection \<open>\<open>initialize_session\<close> (main.py, lines 73 to 90)\<close>

definition initialize_session :: "stored_state \<Rightarrow> session" where
  "initialize_session st =
     \<lparr>messages =
        (case stored_messages st of
           None \<Rightarrow> [\<lparr>role = ''assistant'', content = PStr (''How can I help you today? '' @ rocket)\<rparr>]
         | Some ms \<Rightarrow> ms),
      params =
        (case stored_params st of
           None \<Rightarrow> \<lparr>temperature = 7 / 10, top_p = 9 / 10, num_predict = 512, repeat_penalty = 11 / 10\<rparr>
         | Some p \<Rightarrow> p)\<rparr>"

text \<open>The session written back as \<open>st.session_state\<close> holds it.\<close>

definition store :: "session \<Rightarrow> stored_state" where
  "store s = \<lparr>stored_messages = Some (messages s), stored_params = Some (params s)\<rparr>"

subsection \<open>\<open>settings_sidebar\<close> (main.py, lines 92 to 130)\<close>

text \<open>The four assignments \<open>params[name] = st.slider(label, min, max, params[name])\<close>, one
  definition each (lines 98, 105, 112 and 119); the third slider has \<open>step=128\<close>.\<close>

definition update_temperature :: "env \<Rightarrow> params \<Rightarrow> params" where
  "update_temperature e p =
     p\<lparr>temperature := slider_float e ''Temperature (Creativity)'' 0 1 (temperature p)\<rparr>"

definition update_top_p :: "env \<Rightarrow> params \<Rightarrow> params" where
  "update_top_p e p =
     p\<lparr>top_p := slider_float e ''Top-P Sampling'' (1 / 10) 1 (top_p p)\<rparr>"

definition update_num_predict :: "env \<Rightarrow> params \<Rightarrow> params" where
  "update_num_predict e p =
     p\<lparr>num_predict := slider_int e ''Max Response Length'' 128 2048 (num_predict p) 128\<rparr>"

definition update_repeat_penalty :: "env \<Rightarrow> params \<Rightarrow> params" where
  "update_repeat_penalty e p =
     p\<lparr>repeat_penalty := slider_float e ''Repeat Penalty'' 1 2 (repeat_penalty p)\<rparr>"

text \<open>The body of the button's \<open>if\<close> (lines 127 to 129), before \<open>st.rerun()\<close>.\<close>

definition clear_chat_history :: "session \<Rightarrow> session" where
  "clear_chat_history s =
     s\<lparr>messages :=
         [\<lparr>role = ''assistant'',
           content = PStr (''How can I help you with coding today? '' @ rocket)\<rparr>]\<rparr>"

text \<open>The result is the session and whether \<open>st.rerun()\<close> was reached, which ends the run.\<close>

definition settings_sidebar :: "env \<Rightarrow> session \<Rightarrow> session \<times> bool" where
  "settings_sidebar e s =
     (let s1 = s\<lparr>params := update_temperature e (params s)\<rparr>;
          s2 = s1\<lparr>params := update_top_p e (params s1)\<rparr>;
          s3 = s2\<lparr>params := update_num_predict e (params s2)\<rparr>;
          s4 = s3\<lparr>params := update_repeat_penalty e (params s3)\<rparr>
      in if button e (broom @ '' Clear Chat History'')
         then (clear_chat_history s4, True)
         else (s4, False))"

subsection \<open>\<open>handle_query\<close> (main.py, lines 138 to 187)\<close>

text \<open>Lines 166 to 169: the check of the response and the reading of the reply. The
  \<open>or\<close> evaluates its second operand only when \<open>'message'\<close> is in the response.\<close>

definition extract_reply :: "pyval \<Rightarrow> exn + pyval" where
  "extract_reply response =
     bind_exn (py_contains response ''message'') (\<lambda>has_message.
       if \<not> has_message then Inl (Exc ValueError ''Invalid response format from Ollama API'')
       else bind_exn (py_getitem response ''message'') (\<lambda>msg.
         bind_exn (py_contains msg ''content'') (\<lambda>has_content.
           if \<not> has_content then Inl (Exc ValueError ''Invalid response format from Ollama API'')
           else bind_exn (py_getitem response ''message'') (\<lambda>msg'. py_getitem msg' ''content''))))"

text \<open>The keyword arguments of \<open>ollama.chat\<close> (lines 153 to 163), read from the session
  as it is at the call: the list of messages itself and a dict of the four parameters.\<close>

definition chat_call :: "session \<Rightarrow> chat_request" where
  "chat_call s =
     \<lparr>model = ''deepseek-r1:1.5b'',
      chat_messages = messages s,
      stream = False,
      options =
        \<lparr>temperature = temperature (params s),
         top_p = top_p (params s),
         num_predict = num_predict (params s),
         repeat_penalty = repeat_penalty (params s)\<rparr>\<rparr>"

text \<open>\<open>list.pop()\<close>: removes the last element, \<open>IndexError\<close> on an empty list.\<close>

definition list_pop :: "'a list \<Rightarrow> exn + 'a list" where
  "list_pop xs = (if xs = [] then Inl (Exc IndexError ''pop from empty list'') else Inr (butlast xs))"

text \<open>How a call of \<open>handle_query\<close> ends: nothing was submitted; the reply was stored; the
  handler of line 177 showed the error box; or an exception left the function.\<close>

datatype turn_outcome = NoTurn | Replied pyval | GenerationError exn | Uncaught exn

record turn =
  after :: session
  calls :: "chat_request list"
  outcome :: turn_outcome

text \<open>\<open>if prompt := st.chat_input(...)\<close> tests the truth value of what the widget returned:
  \<open>None\<close> and the empty \<open>str\<close> are false, every other \<open>str\<close> is true.\<close>

definition handle_query :: "env \<Rightarrow> session \<Rightarrow> turn" where
  "handle_query e s =
     (case chat_input e ''Enter your coding question...'' of
        None \<Rightarrow> \<lparr>after = s, calls = [], outcome = NoTurn\<rparr>
      | Some prompt \<Rightarrow>
          if prompt = [] then \<lparr>after = s, calls = [], outcome = NoTurn\<rparr>
          else
            (let s1 = s\<lparr>messages := messages s @ [\<lparr>role = ''user'', content = PStr prompt\<rparr>]\<rparr>;
                 request = chat_call s1
             in case bind_exn (ollama_chat e request) extract_reply of
                  Inr reply \<Rightarrow>
                    \<lparr>after = s1\<lparr>messages := messages s1 @ [\<lparr>role = ''assistant'', content = reply\<rparr>]\<rparr>,
                     calls = [request],
                     outcome = Replied reply\<rparr>
                | Inl ex \<Rightarrow>
                    (case list_pop (messages s1) of
                       Inr ms \<Rightarrow>
                         \<lparr>after = s1\<lparr>messages := ms\<rparr>, calls = [request],
                          outcome = GenerationError ex\<rparr>
                     | Inl ex' \<Rightarrow>
                         \<lparr>after = s1, calls = [request], outcome = Uncaught ex'\<rparr>)))"

subsection \<open>\<open>main\<close> (main.py, lines 189 to 255)\<close>

text \<open>Lines 228 to 232: \<open>any(m.get('model') == 'deepseek-r1:1.5b' or m.get('name') ==
  'deepseek-r1:1.5b' for m in ...)\<close>. The generator stops at the first entry that matches;
  \<open>==\<close> between an object and a \<open>str\<close> holds for that very \<open>str\<close> only.\<close>

fun model_found :: "pyval list \<Rightarrow> exn + bool" where
  "model_found [] = Inr False"
| "model_found (m # ms) =
     (case py_get m ''model'' of
        Inl ex \<Rightarrow> Inl ex
      | Inr a \<Rightarrow>
          if a = PStr ''deepseek-r1:1.5b'' then Inr True
          else (case py_get m ''name'' of
                  Inl ex \<Rightarrow> Inl ex
                | Inr b \<Rightarrow> if b = PStr ''deepseek-r1:1.5b'' then Inr True else model_found ms))"

text \<open>The points where the first two phases end: the five calls of \<open>st.stop()\<close>, named
  after the message shown before each, and the fall through into phase 3.\<close>

datatype startup =
  ConnectionErrorStop string
  | UnexpectedConnectionErrorStop string
  | UnexpectedResponseFormatStop
  | ModelNotFoundStop
  | MissingFieldStop string
  | Passed

text \<open>The body of the second \<open>try\<close> (lines 216 to 245); \<open>Inl\<close> is an exception raised in it.\<close>

definition model_verification :: "pyval \<Rightarrow> exn + startup" where
  "model_verification server_status =
     bind_exn (py_contains server_status ''models'') (\<lambda>has_models.
       if \<not> has_models then Inr UnexpectedResponseFormatStop
       else bind_exn (py_getitem server_status ''models'') (\<lambda>models.
         bind_exn (py_iter models) (\<lambda>entries.
           bind_exn (model_found entries) (\<lambda>found.
             if \<not> found then Inr ModelNotFoundStop else Inr Passed))))"

text \<open>The expression \<open>ollama.ClientError\<close> of line 197. Python evaluates it when an
  exception of the first \<open>try\<close> reaches the handler, to test the exception against it.
  The client library exports \<open>RequestError\<close> and \<open>ResponseError\<close> and no \<open>ClientError\<close>, so
  the lookup of the attribute raises.\<close>

definition ollama_ClientError :: "exn + exn_class" where
  "ollama_ClientError = Inl (Exc AttributeError ''module ollama has no attribute ClientError'')"

text \<open>Phases 1 and 2 with their handlers. In the first \<open>try\<close> an exception of
  \<open>ollama.list()\<close> is matched against the handlers in order, and an exception raised while
  the first \<open>except\<close> clause is matched leaves \<open>main\<close>: the \<open>except Exception\<close> that
  follows belongs to the same \<open>try\<close> and does not catch it. The second \<open>try\<close> catches a
  \<open>KeyError\<close> only, so that any other exception raised while the response is read leaves
  \<open>main\<close> as well (\<open>Inl\<close>).\<close>

definition startup_check :: "env \<Rightarrow> exn + startup" where
  "startup_check e =
     (case ollama_list e of
        Inl ex \<Rightarrow>
          (case ollama_ClientError of
             Inl ex' \<Rightarrow> Inl ex'
           | Inr client_error \<Rightarrow>
               if exn_cls ex = client_error then Inr (ConnectionErrorStop (str_exn ex))
               else Inr (UnexpectedConnectionErrorStop (str_exn ex)))
      | Inr server_status \<Rightarrow>
          (case model_verification server_status of
             Inl ex \<Rightarrow> if exn_cls ex = KeyError then Inr (MissingFieldStop (str_exn ex)) else Inl ex
           | Inr r \<Rightarrow> Inr r))"

text \<open>How a run of \<open>main\<close> ends.\<close>

datatype run_status = Stopped startup | Crashed exn | Rerun | Finished turn_outcome

record run =
  final_state :: stored_state
  run_calls :: "chat_request list"
  status :: run_status

definition main :: "env \<Rightarrow> stored_state \<Rightarrow> run" where
  "main e st =
     (case startup_check e of
        Inl ex \<Rightarrow> \<lparr>final_state = st, run_calls = [], status = Crashed ex\<rparr>
      | Inr r \<Rightarrow>
          if r \<noteq> Passed then \<lparr>final_state = st, run_calls = [], status = Stopped r\<rparr>
          else
            (let s0 = initialize_session st;
                 (s1, rerun) = settings_sidebar e s0
             in if rerun then \<lparr>final_state = store s1, run_calls = [], status = Rerun\<rparr>
                else
                  (let t = handle_query e s1
                   in \<lparr>final_state = store (after t), run_calls = calls t,
                       status = Finished (outcome t)\<rparr>)))"

text \<open>The four verdicts of the specification's availability checker, read off the
  point where the check ended.\<close>

datatype verdict = Ready | ServerUnreachable string | ProtocolMismatch | ModelMissing string

fun verdict_of :: "startup \<Rightarrow> verdict" where
  "verdict_of (ConnectionErrorStop detail) = ServerUnreachable detail"
| "verdict_of (UnexpectedConnectionErrorStop detail) = ServerUnreachable detail"
| "verdict_of UnexpectedResponseFormatStop = ProtocolMismatch"
| "verdict_of (MissingFieldStop detail) = ProtocolMismatch"
| "verdict_of ModelNotFoundStop = ModelMissing ''deepseek-r1:1.5b''"
| "verdict_of Passed = Ready"

subsection \<open>\<open>validate_model_available\<close> (utils.py)\<close>

text \<open>\<open>utils.py\<close> has no \<open>import\<close>: the name \<open>ollama\<close> is looked up in the module's globals
  when the function runs, and the lookup raises \<open>NameError\<close> unless something has bound
  it there. The first argument is that binding, reduced to the function \<open>ollama.show\<close>.\<close>

definition show_probe :: "(string \<Rightarrow> exn + pyval) option \<Rightarrow> string \<Rightarrow> exn + pyval" where
  "show_probe ollama_global model_name =
     (case ollama_global of
        None \<Rightarrow> Inl (Exc NameError ''name ollama is not defined'')
      | Some show \<Rightarrow> show model_name)"

text \<open>The \<open>try\<close> with its bare \<open>except:\<close>; \<open>Inl\<close> would be an exception that leaves the
  function.\<close>

definition validate_model_available ::
  "(string \<Rightarrow> exn + pyval) option \<Rightarrow> string \<Rightarrow> exn + bool" where
  "validate_model_available ollama_global model_name =
     (case show_probe ollama_global model_name of Inr r \<Rightarrow> Inr True | Inl ex \<Rightarrow> Inr False)"

subsection \<open>A session as a sequence of runs\<close>

text \<open>Streamlit runs the script once for every interaction, each run with what the
  widgets and the server return then, on the state the run before left.\<close>

fun runs :: "env list \<Rightarrow> stored_state \<Rightarrow> stored_state" where
  "runs [] st = st"
| "runs (e # es) st = runs es (final_state (main e st))"

subsection \<open>Properties stated below\<close>

text \<open>The transcript is not empty and starts with an assistant message.\<close>

definition transcript_inv :: "message list \<Rightarrow> bool" where
  "transcript_inv ms = (ms \<noteq> [] \<and> role (hd ms) = ''assistant'')"

text \<open>The same of the state a run finds or leaves, where the key may be absent.\<close>

definition stored_inv :: "stored_state \<Rightarrow> bool" where
  "stored_inv st = (case stored_messages st of None \<Rightarrow> True | Some ms \<Rightarrow> transcript_inv ms)"

text \<open>An entry of the model list as \<open>model_found\<close> tests it.\<close>

definition entry_matches :: "pyval \<Rightarrow> bool" where
  "entry_matches m =
     (case m of
        PDict f \<Rightarrow> map_of f ''model'' = Some (PStr ''deepseek-r1:1.5b'') \<or>
                   map_of f ''name'' = Some (PStr ''deepseek-r1:1.5b'')
      | _ \<Rightarrow> False)"

definition is_dict :: "pyval \<Rightarrow> bool" where
  "is_dict v = (case v of PDict f \<Rightarrow> True | _ \<Rightarrow> False)"

subsection \<open>Concrete inputs\<close>

definition fresh_state :: stored_state where
  "fresh_state = \<lparr>stored_messages = None, stored_params = None\<rparr>"

definition models_ok :: pyval where
  "models_ok = PDict [(''models'', PList [PDict [(''name'', PStr ''deepseek-r1:1.5b'')]])]"

text \<open>An environment whose sliders are left alone and whose button is not pressed, with
  the given answers of \<open>ollama.list\<close>, \<open>st.chat_input\<close> and \<open>ollama.chat\<close>.\<close>

definition quiet_env :: "exn + pyval \<Rightarrow> string option \<Rightarrow> exn + pyval \<Rightarrow> env" where
  "quiet_env list_result prompt chat_result =
     \<lparr>ollama_list = list_result,
      ollama_chat = (\<lambda>request. chat_result),
      slider_float = (\<lambda>label lo hi v. v),
      slider_int = (\<lambda>label lo hi v step. v),
      button = (\<lambda>label. False),
      chat_input = (\<lambda>label. prompt)\<rparr>"

text \<open>An environment whose sliders are dragged towards \<open>x\<close> and \<open>n\<close> and stop at their
  bounds, and whose button is pressed or not.\<close>

definition dragging_env :: "real \<Rightarrow> int \<Rightarrow> bool \<Rightarrow> env" where
  "dragging_env x n pressed =
     \<lparr>ollama_list = Inr models_ok,
      ollama_chat = (\<lambda>request. Inl (Exc OtherException ''connection refused'')),
      slider_float = (\<lambda>label lo hi v. max lo (min hi x)),
      slider_int = (\<lambda>label lo hi v step. max lo (min hi n)),
      button = (\<lambda>label. pressed),
      chat_input = (\<lambda>label. None)\<rparr>"

definition models_llama :: pyval where
  "models_llama = PDict [(''models'', PList [PDict [(''model'', PStr ''llama2'')]])]"

definition models_upper :: pyval where
  "models_upper = PDict [(''models'', PList [PDict [(''model'', PStr ''DeepSeek-R1:1.5B'')]])]"

definition no_models :: pyval where
  "no_models = PDict [(''error'', PStr ''not found'')]"

definition reply_hello :: pyval where
  "reply_hello =
     PDict [(''model'', PStr ''deepseek-r1:1.5b''),
            (''message'', PDict [(''role'', PStr ''assistant''), (''content'', PStr ''Hello'')]),
            (''done'', PBool True)]"

definition reply_no_content :: pyval where
  "reply_no_content = PDict [(''message'', PDict [(''role'', PStr ''assistant'')])]"

definition reply_no_message :: pyval where
  "reply_no_message = PDict [(''done'', PBool True)]"

definition one_turn_session :: session where
  "one_turn_session =
     \<lparr>messages =
        [\<lparr>role = ''assistant'', content = PStr ''Hi''\<rparr>,
         \<lparr>role = ''user'', content = PStr ''What is a list?''\<rparr>,
         \<lparr>role = ''assistant'', content = PStr ''A sequence.''\<rparr>],
      params = \<lparr>temperature = 1 / 2, top_p = 9 / 10, num_predict = 256, repeat_penalty = 3 / 2\<rparr>\<rparr>"


text \<open>An \<open>ollama.show\<close> of a server on which only the required model is installed.\<close>

definition show_installed :: "string \<Rightarrow> exn + pyval" where
  "show_installed model_name =
     (if model_name = ''deepseek-r1:1.5b'' then Inr (PDict [(''details'', PDict [])])
      else Inl (Exc OtherException ''model not found''))"

section \<open>Properties\<close>

subsection \<open>Auxiliary facts\<close>

lemma extract_reply_Inr_iff:
  "extract_reply response = Inr reply \<longleftrightarrow>
     (\<exists>d md. response = PDict d \<and> map_of d ''message'' = Some (PDict md) \<and>
        map_of md ''content'' = Some reply)"
proof (cases response)
  case (PDict d)
  show ?thesis
  proof (cases "map_of d ''message''")
    case None
    with PDict show ?thesis by (simp add: extract_reply_def bind_exn_def)
  next
    case (Some m)
    with PDict show ?thesis
      by (cases m) (auto simp: extract_reply_def bind_exn_def split: option.splits)
  qed
qed (auto simp: extract_reply_def bind_exn_def)

lemma list_pop_snoc: "list_pop (xs @ [x]) = Inr xs"
  by (simp add: list_pop_def)

lemma handle_query_falsy:
  "chat_input e ''Enter your coding question...'' = None \<or>
   chat_input e ''Enter your coding question...'' = Some [] \<Longrightarrow>
   handle_query e s = \<lparr>after = s, calls = [], outcome = NoTurn\<rparr>"
  by (auto simp: handle_query_def)

lemma handle_query_submitted:
  assumes "chat_input e ''Enter your coding question...'' = Some prompt" and "prompt \<noteq> []"
  shows "handle_query e s =
     (let s1 = s\<lparr>messages := messages s @ [\<lparr>role = ''user'', content = PStr prompt\<rparr>]\<rparr>
      in case bind_exn (ollama_chat e (chat_call s1)) extract_reply of
           Inr reply \<Rightarrow>
             \<lparr>after = s\<lparr>messages := messages s @ [\<lparr>role = ''user'', content = PStr prompt\<rparr>,
                                                  \<lparr>role = ''assistant'', content = reply\<rparr>]\<rparr>,
              calls = [chat_call s1], outcome = Replied reply\<rparr>
         | Inl ex \<Rightarrow> \<lparr>after = s, calls = [chat_call s1], outcome = GenerationError ex\<rparr>)"
  using assms by (simp add: handle_query_def Let_def list_pop_snoc split: sum.splits)


lemma extract_reply_cases:
  "(\<exists>reply. extract_reply response = Inr reply) \<or> (\<exists>ex. extract_reply response = Inl ex)"
  by (cases "extract_reply response") auto

lemma extract_reply_missing:
  "map_of d ''message'' = None \<or>
     (\<exists>md. map_of d ''message'' = Some (PDict md) \<and> map_of md ''content'' = None) \<Longrightarrow>
   extract_reply (PDict d) = Inl (Exc ValueError ''Invalid response format from Ollama API'')"
  by (auto simp: extract_reply_def bind_exn_def)

lemma transcript_inv_append: "transcript_inv ms \<Longrightarrow> transcript_inv (ms @ ns)"
  by (cases ms) (simp_all add: transcript_inv_def)

lemma handle_query_messages:
  "messages (after (handle_query e s)) = messages s \<or>
   (\<exists>prompt reply. messages (after (handle_query e s)) =
      messages s @ [\<lparr>role = ''user'', content = PStr prompt\<rparr>,
                    \<lparr>role = ''assistant'', content = reply\<rparr>])"
proof (cases "chat_input e ''Enter your coding question...''")
  case None
  then show ?thesis using handle_query_falsy [of e s] by simp
next
  case (Some prompt)
  show ?thesis
  proof (cases "prompt = []")
    case True
    with Some show ?thesis using handle_query_falsy [of e s] by simp
  next
    case False
    from handle_query_submitted [OF Some False, of s] show ?thesis
      by (auto simp: Let_def split: sum.splits)
  qed
qed

lemma handle_query_inv:
  "transcript_inv (messages s) \<Longrightarrow> transcript_inv (messages (after (handle_query e s)))"
  using handle_query_messages [of e s] by (auto intro: transcript_inv_append)

lemma clear_chat_history_inv: "transcript_inv (messages (clear_chat_history s))"
  by (simp add: clear_chat_history_def transcript_inv_def)

lemma settings_sidebar_messages:
  "messages (fst (settings_sidebar e s)) =
     (if button e (broom @ '' Clear Chat History'') then messages (clear_chat_history s)
      else messages s)"
  by (simp add: settings_sidebar_def Let_def clear_chat_history_def)

lemma settings_sidebar_inv:
  "transcript_inv (messages s) \<Longrightarrow> transcript_inv (messages (fst (settings_sidebar e s)))"
  by (simp add: settings_sidebar_messages clear_chat_history_inv)

lemma initialize_session_inv:
  "(\<forall>ms. stored_messages st = Some ms \<longrightarrow> transcript_inv ms) \<Longrightarrow>
   transcript_inv (messages (initialize_session st))"
  by (simp add: initialize_session_def transcript_inv_def split: option.splits)

lemma main_inv:
  assumes "stored_inv st"
  shows "stored_inv (final_state (main e st))"
proof -
  from assms have i: "transcript_inv (messages (initialize_session st))"
    by (intro initialize_session_inv) (auto simp: stored_inv_def)
  then have j: "transcript_inv (messages (fst (settings_sidebar e (initialize_session st))))"
    by (rule settings_sidebar_inv)
  then have k: "transcript_inv (messages (after (handle_query e (fst (settings_sidebar e (initialize_session st))))))"
    by (rule handle_query_inv)
  show ?thesis
    using assms j k
    by (auto simp: main_def Let_def store_def stored_inv_def split: sum.splits prod.splits)
qed

lemma runs_inv: "stored_inv st \<Longrightarrow> stored_inv (runs es st)"
  by (induction es arbitrary: st) (simp_all add: main_inv)

lemma model_found_dicts:
  "\<forall>m\<in>set ms. is_dict m \<Longrightarrow> model_found ms = Inr (\<exists>m\<in>set ms. entry_matches m)"
proof (induction ms)
  case Nil
  show ?case by simp
next
  case (Cons m ms)
  then obtain f where "m = PDict f" by (cases m) (simp_all add: is_dict_def)
  with Cons show ?case
    by (auto simp: entry_matches_def split: option.splits)
qed

subsection \<open>Claims about a turn\<close>

text \<open>
  Claim C1. A turn that was submitted and does not end with a stored reply has failed in
  one of two ways, \<open>ollama.chat\<close> raised or the response did not pass lines 166 to 169;
  in both the handler of line 177 runs, its \<open>pop()\<close> removes the one message appended at
  line 143, and the session after the call is equal to the session before it.
\<close>

theorem handle_query_failed_turn_restores_transcript:
  assumes "chat_input e ''Enter your coding question...'' = Some prompt"
    and "prompt \<noteq> []"
    and "\<forall>reply. outcome (handle_query e s) \<noteq> Replied reply"
  shows "\<exists>ex request.
           request = chat_call (s\<lparr>messages := messages s @ [\<lparr>role = ''user'', content = PStr prompt\<rparr>]\<rparr>) \<and>
           outcome (handle_query e s) = GenerationError ex \<and>
           (ollama_chat e request = Inl ex \<or>
            (\<exists>response. ollama_chat e request = Inr response \<and> extract_reply response = Inl ex)) \<and>
           list_pop (messages s @ [\<lparr>role = ''user'', content = PStr prompt\<rparr>]) = Inr (messages s) \<and>
           messages (after (handle_query e s)) = messages s \<and>
           after (handle_query e s) = s"
proof -
  let ?s1 = "s\<lparr>messages := messages s @ [\<lparr>role = ''user'', content = PStr prompt\<rparr>]\<rparr>"
  have hq: "handle_query e s =
     (case bind_exn (ollama_chat e (chat_call ?s1)) extract_reply of
           Inr reply \<Rightarrow>
             \<lparr>after = s\<lparr>messages := messages s @ [\<lparr>role = ''user'', content = PStr prompt\<rparr>,
                                                  \<lparr>role = ''assistant'', content = reply\<rparr>]\<rparr>,
              calls = [chat_call ?s1], outcome = Replied reply\<rparr>
         | Inl ex \<Rightarrow> \<lparr>after = s, calls = [chat_call ?s1], outcome = GenerationError ex\<rparr>)"
    using handle_query_submitted [OF assms(1,2), of s] by (simp add: Let_def)
  show ?thesis
  proof (cases "bind_exn (ollama_chat e (chat_call ?s1)) extract_reply")
    case (Inr reply)
    with hq have "outcome (handle_query e s) = Replied reply" by simp
    with assms(3) show ?thesis by blast
  next
    case (Inl ex)
    with hq have "handle_query e s = \<lparr>after = s, calls = [chat_call ?s1], outcome = GenerationError ex\<rparr>"
      by simp
    moreover from Inl have "ollama_chat e (chat_call ?s1) = Inl ex \<or>
            (\<exists>response. ollama_chat e (chat_call ?s1) = Inr response \<and> extract_reply response = Inl ex)"
      by (auto simp: bind_exn_def split: sum.splits)
    ultimately show ?thesis by (simp add: list_pop_snoc)
  qed
qed

text \<open>A refused connection in the middle of a conversation.\<close>

theorem handle_query_failed_turn_witness:
  "outcome (handle_query (quiet_env (Inr models_ok) (Some ''hi'') (Inl (Exc OtherException ''connection refused''))) one_turn_session)
     = GenerationError (Exc OtherException ''connection refused'') \<and>
   after (handle_query (quiet_env (Inr models_ok) (Some ''hi'') (Inl (Exc OtherException ''connection refused''))) one_turn_session)
     = one_turn_session"
proof -
  let ?e = "quiet_env (Inr models_ok) (Some ''hi'') (Inl (Exc OtherException ''connection refused''))"
  have a: "chat_input ?e ''Enter your coding question...'' = Some ''hi''"
    by (simp add: quiet_env_def)
  have b: "''hi'' \<noteq> []" by simp
  have o: "outcome (handle_query ?e one_turn_session) = GenerationError (Exc OtherException ''connection refused'')"
    by (simp add: handle_query_def quiet_env_def Let_def bind_exn_def list_pop_def)
  then have c: "\<forall>reply. outcome (handle_query ?e one_turn_session) \<noteq> Replied reply" by simp
  from handle_query_failed_turn_restores_transcript [OF a b c] o show ?thesis by auto
qed

text \<open>
  Claim C2. A turn that ends with a stored reply has made the transcript two messages
  longer: the old transcript, then the user message with the submitted text, then the
  assistant message whose content is \<open>response['message']['content']\<close>; the parameters
  are as before.
\<close>

theorem handle_query_successful_turn_appends_two:
  assumes "outcome (handle_query e s) = Replied reply"
  shows "\<exists>prompt d md.
           chat_input e ''Enter your coding question...'' = Some prompt \<and> prompt \<noteq> [] \<and>
           ollama_chat e (chat_call (s\<lparr>messages := messages s @ [\<lparr>role = ''user'', content = PStr prompt\<rparr>]\<rparr>))
             = Inr (PDict d) \<and>
           map_of d ''message'' = Some (PDict md) \<and> map_of md ''content'' = Some reply \<and>
           messages (after (handle_query e s)) =
             messages s @ [\<lparr>role = ''user'', content = PStr prompt\<rparr>,
                           \<lparr>role = ''assistant'', content = reply\<rparr>] \<and>
           length (messages (after (handle_query e s))) = length (messages s) + 2 \<and>
           take (length (messages s)) (messages (after (handle_query e s))) = messages s \<and>
           params (after (handle_query e s)) = params s"
proof -
  from assms obtain prompt where p: "chat_input e ''Enter your coding question...'' = Some prompt"
    and ne: "prompt \<noteq> []"
    by (auto simp: handle_query_def split: option.splits if_splits)
  let ?s1 = "s\<lparr>messages := messages s @ [\<lparr>role = ''user'', content = PStr prompt\<rparr>]\<rparr>"
  have hq: "handle_query e s =
     (case bind_exn (ollama_chat e (chat_call ?s1)) extract_reply of
           Inr reply \<Rightarrow>
             \<lparr>after = s\<lparr>messages := messages s @ [\<lparr>role = ''user'', content = PStr prompt\<rparr>,
                                                  \<lparr>role = ''assistant'', content = reply\<rparr>]\<rparr>,
              calls = [chat_call ?s1], outcome = Replied reply\<rparr>
         | Inl ex \<Rightarrow> \<lparr>after = s, calls = [chat_call ?s1], outcome = GenerationError ex\<rparr>)"
    using handle_query_submitted [OF p ne, of s] by (simp add: Let_def)
  from assms hq have b: "bind_exn (ollama_chat e (chat_call ?s1)) extract_reply = Inr reply"
    by (auto split: sum.splits)
  then obtain response where r: "ollama_chat e (chat_call ?s1) = Inr response"
    and x: "extract_reply response = Inr reply"
    by (auto simp: bind_exn_def split: sum.splits)
  from x obtain d md where "response = PDict d" "map_of d ''message'' = Some (PDict md)"
    "map_of md ''content'' = Some reply"
    by (auto simp: extract_reply_Inr_iff)
  moreover from hq b have "after (handle_query e s) =
      s\<lparr>messages := messages s @ [\<lparr>role = ''user'', content = PStr prompt\<rparr>,
                                    \<lparr>role = ''assistant'', content = reply\<rparr>]\<rparr>"
    by simp
  ultimately show ?thesis using p ne r by auto
qed

text \<open>A well-formed response in the middle of a conversation.\<close>

theorem handle_query_successful_turn_witness:
  "outcome (handle_query (quiet_env (Inr models_ok) (Some ''hi'') (Inr reply_hello)) one_turn_session)
     = Replied (PStr ''Hello'') \<and>
   messages (after (handle_query (quiet_env (Inr models_ok) (Some ''hi'') (Inr reply_hello)) one_turn_session))
     = messages one_turn_session @ [\<lparr>role = ''user'', content = PStr ''hi''\<rparr>,
                                    \<lparr>role = ''assistant'', content = PStr ''Hello''\<rparr>]"
proof -
  let ?e = "quiet_env (Inr models_ok) (Some ''hi'') (Inr reply_hello)"
  have o: "outcome (handle_query ?e one_turn_session) = Replied (PStr ''Hello'')"
    by (simp add: handle_query_def quiet_env_def Let_def bind_exn_def extract_reply_def reply_hello_def)
  have i: "chat_input ?e ''Enter your coding question...'' = Some ''hi''"
    by (simp add: quiet_env_def)
  from handle_query_successful_turn_appends_two [OF o] i show ?thesis using o by auto
qed

text \<open>
  Claim C3, as stated, fails: the guard of line 140 is the truth value of the string, and
  a string of one space is true. Here such a prompt is appended, sent to the model and
  answered.
\<close>

theorem handle_query_whitespace_counterexample:
  "calls (handle_query (quiet_env (Inr models_ok) (Some '' '') (Inr reply_hello)) one_turn_session) \<noteq> [] \<and>
   messages (after (handle_query (quiet_env (Inr models_ok) (Some '' '') (Inr reply_hello)) one_turn_session))
     = messages one_turn_session @ [\<lparr>role = ''user'', content = PStr '' ''\<rparr>,
                                    \<lparr>role = ''assistant'', content = PStr ''Hello''\<rparr>] \<and>
   after (handle_query (quiet_env (Inr models_ok) (Some '' '') (Inr reply_hello)) one_turn_session)
     \<noteq> one_turn_session"
  by (simp add: handle_query_def quiet_env_def Let_def bind_exn_def extract_reply_def
      reply_hello_def one_turn_session_def)

text \<open>
  Claim C3, amended. When the widget returns \<open>None\<close> or the empty string,
  \<open>handle_query\<close> does nothing: the session (transcript and parameters) is unchanged
  and \<open>ollama.chat\<close> is not called.
\<close>

theorem handle_query_empty_input_noop:
  assumes "chat_input e ''Enter your coding question...'' = None \<or>
           chat_input e ''Enter your coding question...'' = Some []"
  shows "after (handle_query e s) = s \<and>
         messages (after (handle_query e s)) = messages s \<and>
         params (after (handle_query e s)) = params s \<and>
         calls (handle_query e s) = [] \<and>
         outcome (handle_query e s) = NoTurn"
  using handle_query_falsy [OF assms, of s] by simp

text \<open>Both inputs that the guard rejects.\<close>

theorem handle_query_empty_input_witness:
  "calls (handle_query (quiet_env (Inr models_ok) (Some []) (Inr reply_hello)) one_turn_session) = [] \<and>
   after (handle_query (quiet_env (Inr models_ok) (Some []) (Inr reply_hello)) one_turn_session) = one_turn_session \<and>
   calls (handle_query (quiet_env (Inr models_ok) None (Inr reply_hello)) one_turn_session) = [] \<and>
   after (handle_query (quiet_env (Inr models_ok) None (Inr reply_hello)) one_turn_session) = one_turn_session"
proof -
  have a: "chat_input (quiet_env (Inr models_ok) (Some []) (Inr reply_hello)) ''Enter your coding question...'' = None \<or>
           chat_input (quiet_env (Inr models_ok) (Some []) (Inr reply_hello)) ''Enter your coding question...'' = Some []"
    by (simp add: quiet_env_def)
  have b: "chat_input (quiet_env (Inr models_ok) None (Inr reply_hello)) ''Enter your coding question...'' = None \<or>
           chat_input (quiet_env (Inr models_ok) None (Inr reply_hello)) ''Enter your coding question...'' = Some []"
    by (simp add: quiet_env_def)
  from handle_query_empty_input_noop [OF a, of one_turn_session]
    handle_query_empty_input_noop [OF b, of one_turn_session]
  show ?thesis by simp
qed

text \<open>
  Claim C6. Whenever \<open>ollama.chat\<close> returns a response that is not a dict holding a dict
  under \<open>message\<close> with a key \<open>content\<close>, no reply is stored: the turn ends in the error
  box with the exception raised at lines 166 to 169, which is the \<open>ValueError\<close> of line 167
  when the response is a dict that lacks \<open>message\<close> or whose \<open>message\<close> dict lacks
  \<open>content\<close>; and the session is as it was before the turn.
\<close>

theorem handle_query_missing_field_is_error:
  assumes "chat_input e ''Enter your coding question...'' = Some prompt"
    and "prompt \<noteq> []"
    and "ollama_chat e (chat_call (s\<lparr>messages := messages s @ [\<lparr>role = ''user'', content = PStr prompt\<rparr>]\<rparr>))
           = Inr response"
    and "\<not> (\<exists>d md reply. response = PDict d \<and> map_of d ''message'' = Some (PDict md) \<and>
                map_of md ''content'' = Some reply)"
  shows "(\<exists>ex. extract_reply response = Inl ex \<and> outcome (handle_query e s) = GenerationError ex) \<and>
         (\<forall>d. response = PDict d \<and>
               (map_of d ''message'' = None \<or>
                (\<exists>md. map_of d ''message'' = Some (PDict md) \<and> map_of md ''content'' = None)) \<longrightarrow>
               outcome (handle_query e s) =
                 GenerationError (Exc ValueError ''Invalid response format from Ollama API'')) \<and>
         messages (after (handle_query e s)) = messages s \<and>
         after (handle_query e s) = s"
proof -
  let ?s1 = "s\<lparr>messages := messages s @ [\<lparr>role = ''user'', content = PStr prompt\<rparr>]\<rparr>"
  from assms(4) have "\<not> (\<exists>reply. extract_reply response = Inr reply)"
    by (simp add: extract_reply_Inr_iff)
  then obtain ex where ex: "extract_reply response = Inl ex"
    using extract_reply_cases [of response] by blast
  with assms(3) have "bind_exn (ollama_chat e (chat_call ?s1)) extract_reply = Inl ex"
    by (simp add: bind_exn_def)
  with handle_query_submitted [OF assms(1,2), of s]
  have hq: "handle_query e s = \<lparr>after = s, calls = [chat_call ?s1], outcome = GenerationError ex\<rparr>"
    by (simp add: Let_def)
  have "outcome (handle_query e s) = GenerationError (Exc ValueError ''Invalid response format from Ollama API'')"
    if "response = PDict d" and "map_of d ''message'' = None \<or>
                (\<exists>md. map_of d ''message'' = Some (PDict md) \<and> map_of md ''content'' = None)" for d
    using that ex hq extract_reply_missing [of d] by simp
  with ex hq show ?thesis by simp
qed

text \<open>A response without \<open>message.content\<close> and one without \<open>message\<close>.\<close>

theorem handle_query_missing_field_witness:
  "outcome (handle_query (quiet_env (Inr models_ok) (Some ''hi'') (Inr reply_no_content)) one_turn_session)
     = GenerationError (Exc ValueError ''Invalid response format from Ollama API'') \<and>
   after (handle_query (quiet_env (Inr models_ok) (Some ''hi'') (Inr reply_no_content)) one_turn_session)
     = one_turn_session \<and>
   outcome (handle_query (quiet_env (Inr models_ok) (Some ''hi'') (Inr reply_no_message)) one_turn_session)
     = GenerationError (Exc ValueError ''Invalid response format from Ollama API'') \<and>
   after (handle_query (quiet_env (Inr models_ok) (Some ''hi'') (Inr reply_no_message)) one_turn_session)
     = one_turn_session"
proof -
  let ?e = "quiet_env (Inr models_ok) (Some ''hi'') (Inr reply_no_content)"
  let ?f = "quiet_env (Inr models_ok) (Some ''hi'') (Inr reply_no_message)"
  let ?s1 = "one_turn_session\<lparr>messages := messages one_turn_session @ [\<lparr>role = ''user'', content = PStr ''hi''\<rparr>]\<rparr>"
  have a: "chat_input ?e ''Enter your coding question...'' = Some ''hi''"
    and a': "chat_input ?f ''Enter your coding question...'' = Some ''hi''"
    by (simp_all add: quiet_env_def)
  have b: "''hi'' \<noteq> []" by simp
  have c: "ollama_chat ?e (chat_call ?s1) = Inr reply_no_content"
    and c': "ollama_chat ?f (chat_call ?s1) = Inr reply_no_message"
    by (simp_all add: quiet_env_def)
  have d: "\<not> (\<exists>d md reply. reply_no_content = PDict d \<and> map_of d ''message'' = Some (PDict md) \<and>
                map_of md ''content'' = Some reply)"
    and d': "\<not> (\<exists>d md reply. reply_no_message = PDict d \<and> map_of d ''message'' = Some (PDict md) \<and>
                map_of md ''content'' = Some reply)"
    by (auto simp: reply_no_content_def reply_no_message_def)
  from handle_query_missing_field_is_error [OF a b c d]
    handle_query_missing_field_is_error [OF a' b c' d']
  show ?thesis by (simp add: reply_no_content_def reply_no_message_def)
qed

subsection \<open>Claims about the sidebar\<close>

text \<open>
  Claim C8. The reset of lines 127 to 129 leaves a transcript of exactly one message,
  the assistant's greeting, whatever the session was; it leaves the parameters alone;
  done twice it gives what it gives done once. A run of \<open>settings_sidebar\<close> with the
  button pressed is the run without it followed by the reset.
\<close>

theorem clear_chat_history_single_greeting:
  "messages (clear_chat_history s) =
     [\<lparr>role = ''assistant'', content = PStr (''How can I help you with coding today? '' @ rocket)\<rparr>] \<and>
   length (messages (clear_chat_history s)) = 1 \<and>
   role (hd (messages (clear_chat_history s))) = ''assistant'' \<and>
   params (clear_chat_history s) = params s \<and>
   clear_chat_history (clear_chat_history s) = clear_chat_history s \<and>
   settings_sidebar (e\<lparr>button := \<lambda>label. True\<rparr>) s =
     (clear_chat_history (fst (settings_sidebar (e\<lparr>button := \<lambda>label. False\<rparr>) s)), True)"
  by (simp add: clear_chat_history_def settings_sidebar_def Let_def update_temperature_def
      update_top_p_def update_num_predict_def update_repeat_penalty_def)

subsection \<open>Claim about \<open>utils.py\<close>\<close>

text \<open>
  Claim C9. For every model name \<open>validate_model_available\<close> returns a Boolean and no
  exception leaves it; it returns \<open>False\<close> whenever the probe \<open>ollama.show(model_name)\<close>
  raises, and \<open>True\<close> exactly when the probe returns.
\<close>

theorem validate_model_available_total:
  "(\<exists>b. validate_model_available ollama_global model_name = Inr b) \<and>
   (\<forall>ex. show_probe ollama_global model_name = Inl ex \<longrightarrow>
      validate_model_available ollama_global model_name = Inr False) \<and>
   (validate_model_available ollama_global model_name = Inr True \<longrightarrow>
      (\<exists>r. show_probe ollama_global model_name = Inr r)) \<and>
   (\<forall>r. show_probe ollama_global model_name = Inr r \<longrightarrow>
      validate_model_available ollama_global model_name = Inr True)"
  by (cases "show_probe ollama_global model_name") (auto simp: validate_model_available_def)

text \<open>An installed model, a missing one, and the module as it is, with the name
  \<open>ollama\<close> unbound.\<close>

theorem validate_model_available_witness:
  "validate_model_available (Some show_installed) ''deepseek-r1:1.5b'' = Inr True \<and>
   show_probe (Some show_installed) ''deepseek-r1:1.5b'' = Inr (PDict [(''details'', PDict [])]) \<and>
   show_probe (Some show_installed) ''llama2'' = Inl (Exc OtherException ''model not found'') \<and>
   validate_model_available (Some show_installed) ''llama2'' = Inr False \<and>
   show_probe None ''deepseek-r1:1.5b'' = Inl (Exc NameError ''name ollama is not defined'') \<and>
   validate_model_available None ''deepseek-r1:1.5b'' = Inr False"
proof -
  have a: "show_probe (Some show_installed) ''deepseek-r1:1.5b'' = Inr (PDict [(''details'', PDict [])])"
    and b: "show_probe (Some show_installed) ''llama2'' = Inl (Exc OtherException ''model not found'')"
    and c: "show_probe None ''deepseek-r1:1.5b'' = Inl (Exc NameError ''name ollama is not defined'')"
    by (simp_all add: show_probe_def show_installed_def)
  from validate_model_available_total [of "Some show_installed" "''deepseek-r1:1.5b''"]
    validate_model_available_total [of "Some show_installed" "''llama2''"]
    validate_model_available_total [of None "''deepseek-r1:1.5b''"]
    a b c
  show ?thesis by simp
qed

subsection \<open>Claim about the transcript's invariant\<close>

text \<open>
  Claim C10. \<open>initialize_session\<close> on a state without messages seeds a transcript that is
  not empty and starts with an assistant message; \<open>handle_query\<close> (whether the turn
  succeeds, fails or is not submitted), the reset and \<open>settings_sidebar\<close> keep that
  property, and so does a whole run of \<open>main\<close>; hence it holds after any sequence of runs
  of a session that started with no state.
\<close>

theorem transcript_invariant_preserved:
  "(stored_messages st = None \<longrightarrow> transcript_inv (messages (initialize_session st))) \<and>
   (transcript_inv (messages s) \<longrightarrow> transcript_inv (messages (after (handle_query e s)))) \<and>
   transcript_inv (messages (clear_chat_history s)) \<and>
   (transcript_inv (messages s) \<longrightarrow> transcript_inv (messages (fst (settings_sidebar e s)))) \<and>
   (stored_inv st \<longrightarrow> stored_inv (final_state (main e st))) \<and>
   stored_inv (runs es fresh_state)"
proof -
  have "stored_inv fresh_state" by (simp add: stored_inv_def fresh_state_def)
  then have "stored_inv (runs es fresh_state)" by (rule runs_inv)
  moreover have "transcript_inv (messages (initialize_session st))" if "stored_messages st = None"
    using that by (intro initialize_session_inv) simp
  ultimately show ?thesis
    using handle_query_inv [of s e] settings_sidebar_inv [of s e] main_inv [of st e]
      clear_chat_history_inv [of s]
    by blast
qed

text \<open>A successful turn, a failed turn and a reset, one after the other and each alone.\<close>

theorem transcript_invariant_witness:
  "transcript_inv (messages (initialize_session fresh_state)) \<and>
   transcript_inv (messages one_turn_session) \<and>
   transcript_inv (messages (after (handle_query (quiet_env (Inr models_ok) (Some ''hi'') (Inr reply_hello)) one_turn_session))) \<and>
   transcript_inv (messages (after (handle_query (quiet_env (Inr models_ok) (Some ''hi'') (Inr reply_no_content)) one_turn_session))) \<and>
   transcript_inv (messages (fst (settings_sidebar (dragging_env 5 0 True) one_turn_session))) \<and>
   stored_inv (store one_turn_session) \<and>
   stored_inv (final_state (main (quiet_env (Inr models_ok) (Some ''hi'') (Inr reply_hello)) (store one_turn_session))) \<and>
   stored_inv (runs [quiet_env (Inr models_ok) (Some ''hi'') (Inr reply_hello),
                     quiet_env (Inr models_ok) (Some ''more'') (Inr reply_no_content),
                     dragging_env 5 0 True] fresh_state) \<and>
   stored_messages (runs [quiet_env (Inr models_ok) (Some ''hi'') (Inr reply_hello),
                          quiet_env (Inr models_ok) (Some ''more'') (Inr reply_no_content)] fresh_state) =
     Some [\<lparr>role = ''assistant'', content = PStr (''How can I help you today? '' @ rocket)\<rparr>,
           \<lparr>role = ''user'', content = PStr ''hi''\<rparr>,
           \<lparr>role = ''assistant'', content = PStr ''Hello''\<rparr>]"
proof -
  have r: "stored_messages (runs [quiet_env (Inr models_ok) (Some ''hi'') (Inr reply_hello),
                          quiet_env (Inr models_ok) (Some ''more'') (Inr reply_no_content)] fresh_state) =
     Some [\<lparr>role = ''assistant'', content = PStr (''How can I help you today? '' @ rocket)\<rparr>,
           \<lparr>role = ''user'', content = PStr ''hi''\<rparr>,
           \<lparr>role = ''assistant'', content = PStr ''Hello''\<rparr>]"
    by (simp add: main_def startup_check_def model_verification_def quiet_env_def models_ok_def
        bind_exn_def fresh_state_def initialize_session_def settings_sidebar_def Let_def
        update_temperature_def update_top_p_def update_num_predict_def update_repeat_penalty_def
        handle_query_def chat_call_def extract_reply_def reply_hello_def reply_no_content_def
        list_pop_def store_def)
  have a: "stored_messages fresh_state = None" by (simp add: fresh_state_def)
  have b: "transcript_inv (messages one_turn_session)"
    by (simp add: transcript_inv_def one_turn_session_def)
  have c: "stored_inv (store one_turn_session)"
    by (simp add: stored_inv_def store_def transcript_inv_def one_turn_session_def)
  from transcript_invariant_preserved [of fresh_state one_turn_session
      "quiet_env (Inr models_ok) (Some ''hi'') (Inr reply_hello)"
      "[quiet_env (Inr models_ok) (Some ''hi'') (Inr reply_hello),
        quiet_env (Inr models_ok) (Some ''more'') (Inr reply_no_content),
        dragging_env 5 0 True]"]
    transcript_invariant_preserved [of "store one_turn_session" one_turn_session
      "quiet_env (Inr models_ok) (Some ''hi'') (Inr reply_hello)" "[]"]
    transcript_invariant_preserved [of fresh_state one_turn_session
      "quiet_env (Inr models_ok) (Some ''hi'') (Inr reply_no_content)" "[]"]
    transcript_invariant_preserved [of fresh_state one_turn_session "dragging_env 5 0 True" "[]"]
    a b c r
  show ?thesis by simp
qed

subsection \<open>Claims about the availability check\<close>

text \<open>
  Claim C4. When \<open>ollama.list()\<close> returns a dict whose \<open>models\<close> is a list of dicts, the
  check passes (verdict \<open>Ready\<close>) if and only if some entry has the string
  \<open>deepseek-r1:1.5b\<close> under \<open>model\<close> or under \<open>name\<close>, compared as it is; otherwise it stops
  at "Model Not Found" (verdict \<open>ModelMissing\<close>).
\<close>

theorem startup_check_model_match:
  assumes "ollama_list e = Inr (PDict d)"
    and "map_of d ''models'' = Some (PList ms)"
    and "\<forall>m\<in>set ms. is_dict m"
  shows "startup_check e = Inr (if \<exists>m\<in>set ms. entry_matches m then Passed else ModelNotFoundStop) \<and>
         (\<exists>r. startup_check e = Inr r \<and>
              (verdict_of r = Ready \<longleftrightarrow>
                 (\<exists>f. PDict f \<in> set ms \<and>
                      (map_of f ''model'' = Some (PStr ''deepseek-r1:1.5b'') \<or>
                       map_of f ''name'' = Some (PStr ''deepseek-r1:1.5b'')))) \<and>
              (verdict_of r \<noteq> Ready \<longrightarrow> verdict_of r = ModelMissing ''deepseek-r1:1.5b''))"
proof -
  have mv: "model_verification (PDict d) =
      Inr (if \<exists>m\<in>set ms. entry_matches m then Passed else ModelNotFoundStop)"
    using assms(2) model_found_dicts [OF assms(3)]
    by (simp add: model_verification_def bind_exn_def)
  then have sc: "startup_check e = Inr (if \<exists>m\<in>set ms. entry_matches m then Passed else ModelNotFoundStop)"
    using assms(1) by (simp add: startup_check_def)
  have em: "(\<exists>m\<in>set ms. entry_matches m) \<longleftrightarrow>
        (\<exists>f. PDict f \<in> set ms \<and>
                      (map_of f ''model'' = Some (PStr ''deepseek-r1:1.5b'') \<or>
                       map_of f ''name'' = Some (PStr ''deepseek-r1:1.5b'')))"
    (is "?L \<longleftrightarrow> ?R")
  proof
    assume ?L
    then obtain m where m: "m \<in> set ms" "entry_matches m" by blast
    show ?R using m by (cases m rule: pyval.exhaust) (auto simp: entry_matches_def)
  next
    assume ?R
    then show ?L by (auto simp: entry_matches_def intro!: bexI)
  qed
  show ?thesis
  proof (cases "\<exists>m\<in>set ms. entry_matches m")
    case True
    with sc em show ?thesis by simp
  next
    case False
    with sc em show ?thesis by simp
  qed
qed

text \<open>The lists \<open>[{model: llama2}]\<close>, \<open>[{name: deepseek-r1:1.5b}]\<close> and
  \<open>[{model: DeepSeek-R1:1.5B}]\<close>.\<close>

theorem startup_check_model_match_witness:
  "verdict_of ModelNotFoundStop = ModelMissing ''deepseek-r1:1.5b'' \<and>
   startup_check (quiet_env (Inr models_llama) None (Inr reply_hello)) = Inr ModelNotFoundStop \<and>
   startup_check (quiet_env (Inr models_ok) None (Inr reply_hello)) = Inr Passed \<and>
   verdict_of Passed = Ready \<and>
   startup_check (quiet_env (Inr models_upper) None (Inr reply_hello)) = Inr ModelNotFoundStop"
proof -
  have a: "ollama_list (quiet_env (Inr models_llama) None (Inr reply_hello))
             = Inr (PDict [(''models'', PList [PDict [(''model'', PStr ''llama2'')]])])"
    and b: "ollama_list (quiet_env (Inr models_ok) None (Inr reply_hello))
             = Inr (PDict [(''models'', PList [PDict [(''name'', PStr ''deepseek-r1:1.5b'')]])])"
    and c: "ollama_list (quiet_env (Inr models_upper) None (Inr reply_hello))
             = Inr (PDict [(''models'', PList [PDict [(''model'', PStr ''DeepSeek-R1:1.5B'')]])])"
    by (simp_all add: quiet_env_def models_llama_def models_ok_def models_upper_def)
  have m: "map_of [(''models'', PList xs)] ''models'' = Some (PList xs)" for xs :: "pyval list"
    by simp
  have d: "\<forall>m\<in>set [PDict f]. is_dict m" for f
    by (simp add: is_dict_def)
  from startup_check_model_match [OF a m d] startup_check_model_match [OF b m d]
    startup_check_model_match [OF c m d]
  show ?thesis by (simp add: entry_matches_def)
qed

text \<open>
  Claim C5 describes what the handlers of lines 197 to 212 are written to do, and the code
  does not do it. When \<open>ollama.list()\<close> raises, matching the exception against
  \<open>ollama.ClientError\<close> raises \<open>AttributeError\<close>, which leaves \<open>main\<close>: neither the
  "Connection Error" nor the "Unexpected connection error" message is shown, no
  \<open>st.stop()\<close> is reached and the run ends without a verdict, the session state untouched
  and \<open>ollama.chat\<close> not called. Here the server refuses the connection.
\<close>

theorem main_crashes_when_list_fails:
  "startup_check (quiet_env (Inl (Exc ConnectionError ''connection refused'')) (Some ''hi'') (Inr reply_hello))
     = Inl (Exc AttributeError ''module ollama has no attribute ClientError'') \<and>
   main (quiet_env (Inl (Exc ConnectionError ''connection refused'')) (Some ''hi'') (Inr reply_hello))
        (store one_turn_session)
     = \<lparr>final_state = store one_turn_session, run_calls = [],
        status = Crashed (Exc AttributeError ''module ollama has no attribute ClientError'')\<rparr>"
  by (simp add: main_def startup_check_def ollama_ClientError_def quiet_env_def)

subsection \<open>Claim about the sliders\<close>




end
